theory Spec2Isabelle
  imports Complex_Main
begin

section \<open>Response envelope builder (src/tools/common/types.ts)\<close>

text \<open>
  A JavaScript string is a sequence of UTF-16 code units; \<open>length\<close> counts them and
  \<open>slice\<close> cuts between them. The model writes a string as a list, one element per
  code unit. The functions below never inspect an element, only the fixed ASCII texts
  they append.
\<close>

datatype content_block =
    TextContent string
  | ImageContent string string

record ToolResponse =
  content :: "content_block list"
  isError :: bool

text \<open>\<^verbatim>\<open>export const MAX_RESPONSE_LENGTH = 20000;\<close>\<close>

definition MAX_RESPONSE_LENGTH :: int where
  "MAX_RESPONSE_LENGTH = 20000"

text \<open>
  \<^verbatim>\<open>String.prototype.slice(start, end)\<close> on integer arguments: a negative index counts
  from the end of the string, both indices are clamped to the string, and an empty range
  gives the empty string.
\<close>

definition slice :: "string \<Rightarrow> int \<Rightarrow> int \<Rightarrow> string" where
  "slice s start end =
     (let len = int (length s);
          from = (if start < 0 then max (len + start) 0 else min start len);
          to = (if end < 0 then max (len + end) 0 else min end len)
      in if to \<le> from then [] else take (nat (to - from)) (drop (nat from) s))"

text \<open>
  The literal that \<open>truncateText\<close> appends:
  \<^verbatim>\<open>'\n[Output truncated due to size limits - exceeded 20000 characters]'\<close>
\<close>

definition truncation_marker :: string where
  "truncation_marker =
     CHR 0x0A # ''[Output truncated due to size limits - exceeded 20000 characters]''"

text \<open>
  \<^verbatim>\<open>truncateText(text, maxLength = MAX_RESPONSE_LENGTH)\<close>. The optional argument is
  \<open>None\<close> when the caller leaves it out; a requested length is an integer, of either sign.
\<close>

definition truncateText :: "string \<Rightarrow> int option \<Rightarrow> string" where
  "truncateText str maxLength =
     (let requested = (case maxLength of None \<Rightarrow> MAX_RESPONSE_LENGTH | Some n \<Rightarrow> n);
          effectiveMaxLength = min requested MAX_RESPONSE_LENGTH
      in if int (length str) \<le> effectiveMaxLength then str
         else slice str 0 effectiveMaxLength @ truncation_marker)"

text \<open>
  \<^verbatim>\<open>Array.prototype.join(separator)\<close> on an array of strings, as the language defines
  it: a loop over the indices that puts the separator before every element but the first.
\<close>

function join_loop :: "string list \<Rightarrow> string \<Rightarrow> nat \<Rightarrow> string \<Rightarrow> string" where
  "join_loop xs sep k R =
     (if k < length xs
      then join_loop xs sep (Suc k) ((if 0 < k then R @ sep else R) @ xs ! k)
      else R)"
  by pat_completeness auto
termination
  by (relation "measure (\<lambda>(xs, sep, k, R). length xs - k)") auto

declare join_loop.simps [simp del]

definition join :: "string list \<Rightarrow> string \<Rightarrow> string" where
  "join xs sep = join_loop xs sep 0 []"

text \<open>The argument of \<open>createSuccessResponse\<close> has type \<^verbatim>\<open>string | string[]\<close>.\<close>

datatype message = Single string | Several "string list"

definition createErrorResponse :: "string \<Rightarrow> ToolResponse" where
  "createErrorResponse msg =
     \<lparr> content = [TextContent (truncateText msg None)], isError = True \<rparr>"

definition createSuccessResponse :: "message \<Rightarrow> ToolResponse" where
  "createSuccessResponse msg =
     (let messages = (case msg of Several ms \<Rightarrow> ms | Single m \<Rightarrow> [m]);
          combinedText = join messages [CHR 0x0A]
      in \<lparr> content = [TextContent (truncateText combinedText None)], isError = False \<rparr>)"

section \<open>Configuration resolver (config.ts, src/unnamed/part_000)\<close>

text \<open>
  What \<^verbatim>\<open>JSON.parse\<close> returns: \<open>null\<close>, a boolean, a number, a string, an array or
  an object with its own properties in order. The variables that hold a parsed proxy
  start as \<open>null\<close>, which is \<open>JNull\<close> too.
\<close>

datatype json =
    JNull
  | JBool bool
  | JNum real
  | JStr string
  | JArr "json list"
  | JObj "(string \<times> json) list"

datatype js_error = SyntaxError string | TypeError string

text \<open>
  \<^verbatim>\<open>JSON.parse\<close> belongs to the language, not to this program: it is a parameter of
  the model, a function that returns the parsed value or the \<open>SyntaxError\<close> it throws.
\<close>

type_synonym parser = "string \<Rightarrow> js_error + json"

text \<open>One call of \<^verbatim>\<open>console.error\<close>: a line, or a text followed by an error object.\<close>

datatype console_entry = Line string | LineWithError string js_error

text \<open>The truth value of a parsed value in a condition, under \<open>||\<close>, \<open>!\<close> and \<open>!!\<close>.\<close>

fun truthy :: "json \<Rightarrow> bool" where
  "truthy JNull = False"
| "truthy (JBool b) = b"
| "truthy (JNum x) = (x \<noteq> 0)"
| "truthy (JStr s) = (s \<noteq> [])"
| "truthy (JArr xs) = True"
| "truthy (JObj fs) = True"

text \<open>\<^verbatim>\<open>Array.prototype.findIndex\<close>: the first index that satisfies the test, or -1.\<close>

fun findIndex :: "('a \<Rightarrow> bool) \<Rightarrow> 'a list \<Rightarrow> int" where
  "findIndex p [] = - 1"
| "findIndex p (x # xs) =
     (if p x then 0 else (let i = findIndex p xs in if i = - 1 then - 1 else i + 1))"

text \<open>Reading \<^verbatim>\<open>args[i]\<close>: \<open>undefined\<close> (here \<open>None\<close>) outside the array.\<close>

definition element_at :: "'a list \<Rightarrow> int \<Rightarrow> 'a option" where
  "element_at xs i = (if 0 \<le> i \<and> i < int (length xs) then Some (xs ! nat i) else None)"

record config =
  GLOBAL_HEADLESS_MODE :: bool
  CLI_HEADLESS_MODE :: bool
  ENV_HEADLESS_MODE :: bool
  GLOBAL_PROXY_CONFIG :: json
  CLI_PROXY_MODE :: bool
  ENV_PROXY_MODE :: bool

text \<open>
  \<^verbatim>\<open>if (proxyArgIndex !== -1 && args[proxyArgIndex + 1]) { try { cliProxyConfig =
  JSON.parse(args[proxyArgIndex + 1]); } catch (error) { console.error(...) } }\<close>
  The result is the value of \<open>cliProxyConfig\<close> and what was written to the console.
\<close>

definition cliProxyConfig :: "parser \<Rightarrow> string list \<Rightarrow> json \<times> console_entry list" where
  "cliProxyConfig JSON_parse args =
     (let proxyArgIndex = findIndex (\<lambda>arg. arg = ''--proxy'') args
      in if proxyArgIndex \<noteq> - 1
         then (case element_at args (proxyArgIndex + 1) of
                 None \<Rightarrow> (JNull, [])
               | Some a \<Rightarrow>
                   if a = [] then (JNull, [])
                   else (case JSON_parse a of
                           Inr v \<Rightarrow> (v, [])
                         | Inl error \<Rightarrow>
                             (JNull, [LineWithError ''Failed to parse --proxy argument:'' error])))
         else (JNull, []))"

text \<open>
  \<^verbatim>\<open>if (process.env.PLAYWRIGHT_PROXY) { try { envProxyConfig =
  JSON.parse(process.env.PLAYWRIGHT_PROXY); } catch (error) { console.error(...) } }\<close>
\<close>

definition envProxyConfig :: "parser \<Rightarrow> (string \<rightharpoonup> string) \<Rightarrow> json \<times> console_entry list" where
  "envProxyConfig JSON_parse env =
     (case env ''PLAYWRIGHT_PROXY'' of
        None \<Rightarrow> (JNull, [])
      | Some a \<Rightarrow>
          if a = [] then (JNull, [])
          else (case JSON_parse a of
                  Inr v \<Rightarrow> (v, [])
                | Inl error \<Rightarrow> (JNull, [LineWithError ''Failed to parse PLAYWRIGHT_PROXY:'' error])))"

text \<open>
  The module as a whole, evaluated once from the argument vector and the environment:
  the exported constants and the console output, the command line's before the
  environment's.
\<close>

definition load_config ::
  "parser \<Rightarrow> string list \<Rightarrow> (string \<rightharpoonup> string) \<Rightarrow> config \<times> console_entry list" where
  "load_config JSON_parse argv env =
     (let args = drop 2 argv;
          (cliProxy, cliLog) = cliProxyConfig JSON_parse args;
          (envProxy, envLog) = envProxyConfig JSON_parse env
      in (\<lparr> GLOBAL_HEADLESS_MODE =
              (''--headless'' \<in> set args \<or> env ''PLAYWRIGHT_HEADLESS'' = Some ''true''),
            CLI_HEADLESS_MODE = (''--headless'' \<in> set args),
            ENV_HEADLESS_MODE = (env ''PLAYWRIGHT_HEADLESS'' = Some ''true''),
            GLOBAL_PROXY_CONFIG = (if truthy cliProxy then cliProxy else envProxy),
            CLI_PROXY_MODE = truthy cliProxy,
            ENV_PROXY_MODE = (truthy envProxy \<and> \<not> truthy cliProxy) \<rparr>,
          cliLog @ envLog))"

section \<open>Startup diagnostics (src/index.ts)\<close>

text \<open>
  Reading a property of a parsed value: an object's own property, else \<open>undefined\<close>
  (here \<open>None\<close>). The three names read below, \<open>server\<close>, \<open>username\<close> and \<open>bypass\<close>,
  are not inherited by any kind of value. The read happens under a guard that excludes
  \<open>null\<close>.
\<close>

fun get_prop :: "json \<Rightarrow> string \<Rightarrow> json option" where
  "get_prop (JObj fs) k = map_of fs k"
| "get_prop v k = None"

definition truthy_prop :: "json option \<Rightarrow> bool" where
  "truthy_prop v = (case v of None \<Rightarrow> False | Some j \<Rightarrow> truthy j)"

text \<open>The first error of a list of results, else all the values.\<close>

fun collect :: "('e + 'a) list \<Rightarrow> 'e + 'a list" where
  "collect [] = Inr []"
| "collect (Inl e # rs) = Inl e"
| "collect (Inr x # rs) = (case collect rs of Inl e \<Rightarrow> Inl e | Inr xs \<Rightarrow> Inr (x # xs))"

text \<open>
  The conversion to a string that a template literal applies to \<^verbatim>\<open>${...}\<close>. The
  decimal form of a number is left to the parameter \<open>num\<close>. An array is its elements
  joined by commas, \<open>null\<close> elements empty. An object is \<^verbatim>\<open>[object Object]\<close>, unless
  an own property named \<open>toString\<close> hides the inherited method: no parsed value is
  callable, and the conversion throws a \<open>TypeError\<close>.
\<close>

fun ToString :: "(real \<Rightarrow> string) \<Rightarrow> json \<Rightarrow> js_error + string" where
  "ToString num JNull = Inr ''null''"
| "ToString num (JBool b) = Inr (if b then ''true'' else ''false'')"
| "ToString num (JNum x) = Inr (num x)"
| "ToString num (JStr s) = Inr s"
| "ToString num (JArr xs) =
     (case collect (map (\<lambda>x. if x = JNull then Inr [] else ToString num x) xs) of
        Inl e \<Rightarrow> Inl e
      | Inr ss \<Rightarrow> Inr (join ss '',''))"
| "ToString num (JObj fs) =
     (if ''toString'' \<in> fst ` set fs
      then Inl (TypeError ''Cannot convert object to primitive value'')
      else Inr ''[object Object]'')"

definition template_value :: "(real \<Rightarrow> string) \<Rightarrow> json option \<Rightarrow> js_error + string" where
  "template_value num v = (case v of None \<Rightarrow> Inr ''undefined'' | Some j \<Rightarrow> ToString num j)"

text \<open>
  \<^verbatim>\<open>if (GLOBAL_HEADLESS_MODE) { ... console.error(`... headless mode (${source})`) }\<close>
\<close>

definition headless_diagnostic :: "config \<Rightarrow> string option" where
  "headless_diagnostic cfg =
     (if GLOBAL_HEADLESS_MODE cfg
      then (let source = (if CLI_HEADLESS_MODE cfg then ''--headless flag''
                          else ''PLAYWRIGHT_HEADLESS environment variable'')
            in Some (''Playwright MCP Server starting in headless mode ('' @ source @ '')''))
      else None)"

text \<open>
  \<^verbatim>\<open>if (GLOBAL_PROXY_CONFIG) { const source = ...; const authInfo = ...; const
  bypassInfo = ...; console.error(`... proxy: ${server}${authInfo}${bypassInfo}
  (${source})`) }\<close>
  \<open>None\<close> when the guard fails; else the line, or the error a conversion threw, the
  bypass text being built before the line.
\<close>

definition proxy_diagnostic :: "(real \<Rightarrow> string) \<Rightarrow> config \<Rightarrow> (js_error + string) option" where
  "proxy_diagnostic num cfg =
     (let proxy = GLOBAL_PROXY_CONFIG cfg
      in if truthy proxy
         then (let source = (if CLI_PROXY_MODE cfg then ''--proxy flag''
                             else ''PLAYWRIGHT_PROXY environment variable'');
                   authInfo = (if truthy_prop (get_prop proxy ''username'')
                               then '' (authenticated)'' else [])
               in Some
                 (case (if truthy_prop (get_prop proxy ''bypass'')
                        then (case template_value num (get_prop proxy ''bypass'') of
                                Inl e \<Rightarrow> Inl e
                              | Inr b \<Rightarrow> Inr ('' (bypass: '' @ b @ '')''))
                        else Inr []) of
                    Inl e \<Rightarrow> Inl e
                  | Inr bypassInfo \<Rightarrow>
                      (case template_value num (get_prop proxy ''server'') of
                         Inl e \<Rightarrow> Inl e
                       | Inr server \<Rightarrow>
                           Inr (''Playwright MCP Server starting with proxy: '' @ server
                                @ authInfo @ bypassInfo @ '' ('' @ source @ '')''))))
         else None)"

subsection \<open>Measures and reference definitions used by the properties\<close>

text \<open>The sum of the lengths of all text payloads of a response.\<close>

fun text_size :: "content_block \<Rightarrow> nat" where
  "text_size (TextContent t) = length t"
| "text_size (ImageContent d m) = 0"

definition text_payload_length :: "ToolResponse \<Rightarrow> nat" where
  "text_payload_length r = sum_list (map text_size (content r))"

text \<open>
  The specification's concatenation rule, written directly: the payloads in input
  order, one newline between two neighbours.
\<close>

fun newline_joined :: "string list \<Rightarrow> string" where
  "newline_joined [] = []"
| "newline_joined [m] = m"
| "newline_joined (m # n # ms) = m @ [CHR 0x0A] @ newline_joined (n # ms)"

text \<open>
  The specification's effective limit: the requested length, the absolute default when
  none is requested, capped by the absolute maximum of 20000.
\<close>

definition effective_limit :: "int option \<Rightarrow> int" where
  "effective_limit maxLength =
     min (case maxLength of None \<Rightarrow> 20000 | Some n \<Rightarrow> n) 20000"

text \<open>
  A finite table of \<^verbatim>\<open>JSON.parse\<close>, to run the examples: two proxy objects, parsed
  as \<^verbatim>\<open>JSON.parse\<close> parses them; the examples give it no other text but malformed
  ones, for which it reports the syntax error.
\<close>

definition example_parse :: parser where
  "example_parse s =
     (if s = ''{\"server\":\"http://cli.example:3128\"}''
      then Inr (JObj [(''server'', JStr ''http://cli.example:3128'')])
      else if s = ''{\"server\":\"http://proxy.example:8080\",\"username\":\"u\",\"password\":\"p\"}''
      then Inr (JObj [(''server'', JStr ''http://proxy.example:8080''),
                      (''username'', JStr ''u''), (''password'', JStr ''p'')])
      else Inl (SyntaxError ''Unexpected token''))"

subsection \<open>Basic facts\<close>

lemma length_truncation_marker: "length truncation_marker = 66"
  by (simp add: truncation_marker_def)

lemma slice_prefix:
  "0 \<le> n \<Longrightarrow> slice s 0 n = take (nat n) s"
  by (auto simp: slice_def Let_def min_def)

lemma slice_negative_end:
  "n < 0 \<Longrightarrow> slice s 0 n = take (nat (int (length s) + n)) s"
  by (auto simp: slice_def Let_def max_def)

lemma join_loop_rest:
  "0 < k \<Longrightarrow> k \<le> length xs \<Longrightarrow>
   join_loop xs sep k R = R @ concat (map (\<lambda>x. sep @ x) (drop k xs))"
proof (induction xs sep k R rule: join_loop.induct)
  case (1 xs sep k R)
  show ?case
  proof (cases "k < length xs")
    case False
    with "1.prems" have "k = length xs" by simp
    then show ?thesis
      by (simp add: join_loop.simps [of xs sep "length xs" R])
  next
    case True
    have step: "join_loop xs sep k R = join_loop xs sep (Suc k) ((R @ sep) @ xs ! k)"
      using True "1.prems" by (simp add: join_loop.simps [of xs sep k R])
    have dropk: "drop k xs = xs ! k # drop (Suc k) xs"
      using True by (simp add: Cons_nth_drop_Suc)
    have "join_loop xs sep (Suc k) ((if 0 < k then R @ sep else R) @ xs ! k) =
        ((if 0 < k then R @ sep else R) @ xs ! k) @ concat (map (\<lambda>x. sep @ x) (drop (Suc k) xs))"
      using True by (intro "1.IH") simp_all
    then show ?thesis
      using step dropk "1.prems" by simp
  qed
qed

lemma join_Cons: "join (x # ys) sep = x @ concat (map (\<lambda>y. sep @ y) ys)"
proof -
  have "join (x # ys) sep = join_loop (x # ys) sep (Suc 0) x"
    by (simp add: join_def join_loop.simps [of "x # ys" sep 0])
  then show ?thesis
    by (simp add: join_loop_rest)
qed

lemma join_Nil: "join [] sep = []"
  by (simp add: join_def join_loop.simps [of "[]"])

lemma newline_joined_concat:
  "newline_joined (x # ys) = x @ concat (map (\<lambda>y. [CHR 0x0A] @ y) ys)"
  by (induction ys arbitrary: x) auto

lemma join_newline_joined: "join xs [CHR 0x0A] = newline_joined xs"
  by (cases xs) (simp_all only: join_Nil join_Cons newline_joined_concat newline_joined.simps)

lemma join_singleton: "join [m] sep = m"
  by (simp add: join_Cons)

lemma truncateText_effective:
  "truncateText str L =
     (if int (length str) \<le> effective_limit L then str
      else slice str 0 (effective_limit L) @ truncation_marker)"
  by (cases L) (simp_all add: truncateText_def effective_limit_def MAX_RESPONSE_LENGTH_def Let_def)

lemma truncateText_length_bound:
  "0 \<le> effective_limit L \<Longrightarrow> length (truncateText str L) \<le> 20000 + 66"
proof (cases "int (length str) \<le> effective_limit L")
  case True
  then have "int (length str) \<le> 20000"
    by (simp add: effective_limit_def)
  with True show ?thesis
    by (simp add: truncateText_effective)
next
  case False
  assume "0 \<le> effective_limit L"
  moreover have "effective_limit L \<le> 20000"
    by (simp add: effective_limit_def)
  ultimately have "nat (effective_limit L) \<le> 20000"
    by linarith
  with False \<open>0 \<le> effective_limit L\<close> show ?thesis
    by (simp add: truncateText_effective slice_prefix length_truncation_marker)
qed

lemma findIndex_none: "y \<notin> set xs \<Longrightarrow> findIndex (\<lambda>x. x = y) xs = - 1"
  by (induction xs) auto

lemma findIndex_first:
  "y \<notin> set pre \<Longrightarrow> findIndex (\<lambda>x. x = y) (pre @ y # post) = int (length pre)"
  by (induction pre) (auto simp: Let_def)

lemma cliProxyConfig_absent:
  "''--proxy'' \<notin> set args \<Longrightarrow> cliProxyConfig P args = (JNull, [])"
  by (simp add: cliProxyConfig_def findIndex_none)

lemma cliProxyConfig_value:
  assumes "args = pre @ ''--proxy'' # a # post" and "''--proxy'' \<notin> set pre"
  shows "cliProxyConfig P args =
     (if a = [] then (JNull, [])
      else (case P a of Inr v \<Rightarrow> (v, [])
            | Inl error \<Rightarrow> (JNull, [LineWithError ''Failed to parse --proxy argument:'' error])))"
proof -
  have idx: "findIndex (\<lambda>arg. arg = ''--proxy'') args = int (length pre)"
    using assms by (simp add: findIndex_first)
  have "element_at args (int (length pre) + 1) = Some a"
    using assms(1) by (simp add: element_at_def nth_append nat_add_distrib)
  with idx show ?thesis
    by (simp add: cliProxyConfig_def)
qed

lemma cliProxyConfig_no_value:
  assumes "args = pre @ [''--proxy'']" and "''--proxy'' \<notin> set pre"
  shows "cliProxyConfig P args = (JNull, [])"
proof -
  have idx: "findIndex (\<lambda>arg. arg = ''--proxy'') args = int (length pre)"
    using assms by (simp add: findIndex_first)
  have "element_at args (int (length pre) + 1) = None"
    using assms(1) by (simp add: element_at_def)
  with idx show ?thesis
    by (simp add: cliProxyConfig_def)
qed

lemma envProxyConfig_absent:
  "env ''PLAYWRIGHT_PROXY'' = None \<Longrightarrow> envProxyConfig P env = (JNull, [])"
  by (simp add: envProxyConfig_def)

lemma envProxyConfig_value:
  "env ''PLAYWRIGHT_PROXY'' = Some s \<Longrightarrow> s \<noteq> [] \<Longrightarrow>
   envProxyConfig P env =
     (case P s of Inr v \<Rightarrow> (v, [])
      | Inl error \<Rightarrow> (JNull, [LineWithError ''Failed to parse PLAYWRIGHT_PROXY:'' error]))"
  by (simp add: envProxyConfig_def)

lemma envProxyConfig_empty:
  "env ''PLAYWRIGHT_PROXY'' = Some [] \<Longrightarrow> envProxyConfig P env = (JNull, [])"
  by (simp add: envProxyConfig_def)

lemma load_config_fields:
  "GLOBAL_HEADLESS_MODE (fst (load_config P argv env)) =
     (''--headless'' \<in> set (drop 2 argv) \<or> env ''PLAYWRIGHT_HEADLESS'' = Some ''true'')"
  "CLI_HEADLESS_MODE (fst (load_config P argv env)) = (''--headless'' \<in> set (drop 2 argv))"
  "ENV_HEADLESS_MODE (fst (load_config P argv env)) = (env ''PLAYWRIGHT_HEADLESS'' = Some ''true'')"
  "GLOBAL_PROXY_CONFIG (fst (load_config P argv env)) =
     (if truthy (fst (cliProxyConfig P (drop 2 argv))) then fst (cliProxyConfig P (drop 2 argv))
      else fst (envProxyConfig P env))"
  "CLI_PROXY_MODE (fst (load_config P argv env)) = truthy (fst (cliProxyConfig P (drop 2 argv)))"
  "ENV_PROXY_MODE (fst (load_config P argv env)) =
     (truthy (fst (envProxyConfig P env)) \<and> \<not> truthy (fst (cliProxyConfig P (drop 2 argv))))"
  "snd (load_config P argv env) = snd (cliProxyConfig P (drop 2 argv)) @ snd (envProxyConfig P env)"
  by (simp_all add: load_config_def Let_def split_beta)

lemma proxy_provenance_exclusive:
  "\<not> (CLI_PROXY_MODE (fst (load_config P argv env)) \<and> ENV_PROXY_MODE (fst (load_config P argv env)))"
  by (simp add: load_config_fields)

text \<open>
  A command-line value that parses to \<open>null\<close>, \<open>false\<close>, zero or the empty string
  does not count as a proxy: the environment's value is the resolved one.
\<close>

lemma falsy_cli_value_yields_to_env:
  assumes "drop 2 argv = pre @ ''--proxy'' # a # post" and "''--proxy'' \<notin> set pre"
    and "a \<noteq> []" and "P a = Inr c" and "\<not> truthy c"
  shows "GLOBAL_PROXY_CONFIG (fst (load_config P argv env)) = fst (envProxyConfig P env)"
  using assms(3-5) by (simp add: load_config_fields cliProxyConfig_value [OF assms(1,2)])

section \<open>Properties of the response envelope\<close>

text \<open>
  C1. The claim: whatever the text and the requested length (absent, zero, negative or
  far above 20000), the text that \<open>truncateText\<close> produces, and so the text payload of a
  response built by \<open>createSuccessResponse\<close> or \<open>createErrorResponse\<close>, never
  exceeds 20000 characters.

  The code does not keep this bound. The cut keeps the first 20000 characters and the
  66 characters of the marker come on top: a text of 20001 characters gives 20066, in
  \<open>truncateText\<close> and in both builders. A negative requested length reaches \<open>slice\<close>
  as a negative end index, which counts from the end of the text: of 30000 characters
  and a requested length of -1, 29999 are kept, and the result has 30065.
\<close>

theorem truncateText_exceeds_hard_limit:
  "length (truncateText (replicate 20001 (CHR ''a'')) None) = 20066
   \<and> text_payload_length (createErrorResponse (replicate 20001 (CHR ''a''))) = 20066
   \<and> text_payload_length (createSuccessResponse (Single (replicate 20001 (CHR ''a'')))) = 20066
   \<and> length (truncateText (replicate 30000 (CHR ''a'')) (Some (- 1))) = 30065"
  by (simp add: truncateText_effective effective_limit_def slice_prefix slice_negative_end
      length_truncation_marker text_payload_length_def createErrorResponse_def
      createSuccessResponse_def join_singleton)

text \<open>
  C2. For every requested length \<open>L\<close> with \<open>0 \<le> L \<le> 20000\<close> and every text longer
  than \<open>L\<close>, the result of \<open>truncateText\<close> has exactly \<open>L\<close> characters plus the
  length of the truncation marker, and its first \<open>L\<close> characters are the first \<open>L\<close>
  characters of the text.
\<close>

theorem truncateText_honours_request:
  assumes "0 \<le> L" and "L \<le> 20000" and "L < int (length str)"
  shows "length (truncateText str (Some L)) = nat L + length truncation_marker
         \<and> take (nat L) (truncateText str (Some L)) = take (nat L) str"
proof -
  from assms have eff: "effective_limit (Some L) = L"
    by (simp add: effective_limit_def)
  from assms have len: "nat L \<le> length str"
    by linarith
  from assms eff have "truncateText str (Some L) = take (nat L) str @ truncation_marker"
    by (simp add: truncateText_effective slice_prefix)
  with len show ?thesis
    by (simp add: min_absorb2)
qed

theorem truncateText_honours_request_witness:
  "(0::int) \<le> 5 \<and> (5::int) \<le> 20000 \<and> 5 < int (length ''hello world'')
   \<and> length (truncateText ''hello world'' (Some 5)) = 5 + 66
   \<and> take 5 (truncateText ''hello world'' (Some 5)) = ''hello''"
  using truncateText_honours_request [of 5 "''hello world''"]
  by (simp add: length_truncation_marker)

text \<open>
  C3. A text whose length is at most the effective limit \<open>min(requested, 20000)\<close> is
  returned unchanged, with no marker; the cut, followed by the marker, is made only
  for a text longer than the effective limit.
\<close>

theorem truncateText_within_limit_unchanged:
  "(int (length str) \<le> effective_limit L \<longrightarrow> truncateText str L = str)
   \<and> (effective_limit L < int (length str) \<longrightarrow>
        truncateText str L = slice str 0 (effective_limit L) @ truncation_marker)"
  by (simp add: truncateText_effective)

theorem truncateText_within_limit_unchanged_witness:
  "int (length ''hello'') \<le> effective_limit (Some 7)
   \<and> truncateText ''hello'' (Some 7) = ''hello''
   \<and> int (length ''hello'') \<le> effective_limit None
   \<and> truncateText ''hello'' None = ''hello''
   \<and> effective_limit (Some 3) < int (length ''hello'')
   \<and> truncateText ''hello'' (Some 3) = ''hel'' @ truncation_marker"
  using truncateText_within_limit_unchanged [of "''hello''" "Some 7"]
    truncateText_within_limit_unchanged [of "''hello''" None]
    truncateText_within_limit_unchanged [of "''hello''" "Some 3"]
  by (simp add: effective_limit_def slice_prefix)

text \<open>
  C7. For every message, \<open>createErrorResponse\<close> returns a response with \<open>isError\<close>
  true whose only content is one text payload, the message passed through
  \<open>truncateText\<close> with the default limit: the very payload \<open>createSuccessResponse\<close>
  builds from the same message.
\<close>

theorem createErrorResponse_truncated:
  "isError (createErrorResponse msg) = True
   \<and> content (createErrorResponse msg) = [TextContent (truncateText msg None)]
   \<and> content (createErrorResponse msg) = content (createSuccessResponse (Single msg))"
  by (simp add: createErrorResponse_def createSuccessResponse_def join_singleton)

text \<open>
  C8. For every list of text payloads, the empty list included, the text that
  \<open>createSuccessResponse\<close> hands to the truncation is the payloads in input order with
  one newline between two neighbours.
\<close>

theorem createSuccessResponse_joins_with_newline:
  "content (createSuccessResponse (Several ms)) =
     [TextContent (truncateText (newline_joined ms) None)]"
  by (simp add: createSuccessResponse_def join_newline_joined)

theorem createSuccessResponse_joins_with_newline_witness:
  "content (createSuccessResponse (Several [''a'', ''bc'', ''d''])) =
       [TextContent [CHR ''a'', CHR 0x0A, CHR ''b'', CHR ''c'', CHR 0x0A, CHR ''d'']]"
  using createSuccessResponse_joins_with_newline [of "[''a'', ''bc'', ''d'']"]
  by (simp add: truncateText_effective effective_limit_def)

text \<open>
  C10. Whatever its argument, one string or a list of strings, \<open>createSuccessResponse\<close>
  returns exactly one content block, of type text, with \<open>isError\<close> false: a list is
  collapsed into one block. \<open>createErrorResponse\<close> returns exactly one text block too.
\<close>

theorem responses_have_one_text_block:
  "(\<exists>t. content (createSuccessResponse msg) = [TextContent t])
   \<and> isError (createSuccessResponse msg) = False
   \<and> (\<exists>t. content (createErrorResponse e) = [TextContent t])"
  by (simp add: createErrorResponse_def createSuccessResponse_def Let_def)

section \<open>Properties of the configuration resolver\<close>

text \<open>
  In the theorems of this section a source is present when the code's own guard finds
  it: the first \<^verbatim>\<open>--proxy\<close> of the argument list is followed by a non-empty argument,
  the environment variable is set to a non-empty text. \<open>JSON_parse\<close> is any parser.
\<close>

text \<open>
  C4. Precedence. Headless mode: with the \<^verbatim>\<open>--headless\<close> flag the resolved value is
  the flag's value, enabled, whatever the environment holds; without the flag it is the
  value the environment variable implies (enabled exactly for the text \<open>true\<close>); with
  neither it is unset, that is, not enabled. Proxy: a value on the command line that
  parses to an object (or any other value that counts as true) is the resolved value,
  whatever the environment holds; without the flag the resolved value is the parsed
  environment value; with neither it is unset, that is, \<open>null\<close>.
\<close>

theorem config_precedence:
  assumes "cfg = fst (load_config JSON_parse argv env)" and "args = drop 2 argv"
  shows "(''--headless'' \<in> set args \<longrightarrow> GLOBAL_HEADLESS_MODE cfg = True)
    \<and> (''--headless'' \<notin> set args \<longrightarrow> env ''PLAYWRIGHT_HEADLESS'' = Some v \<longrightarrow>
          GLOBAL_HEADLESS_MODE cfg = (v = ''true''))
    \<and> (''--headless'' \<notin> set args \<longrightarrow> env ''PLAYWRIGHT_HEADLESS'' = None \<longrightarrow>
          GLOBAL_HEADLESS_MODE cfg = False)
    \<and> (args = pre @ ''--proxy'' # a # post \<longrightarrow> ''--proxy'' \<notin> set pre \<longrightarrow> a \<noteq> [] \<longrightarrow>
          JSON_parse a = Inr c \<longrightarrow> truthy c \<longrightarrow> GLOBAL_PROXY_CONFIG cfg = c)
    \<and> (''--proxy'' \<notin> set args \<longrightarrow> env ''PLAYWRIGHT_PROXY'' = Some s \<longrightarrow> s \<noteq> [] \<longrightarrow>
          JSON_parse s = Inr e \<longrightarrow> GLOBAL_PROXY_CONFIG cfg = e)
    \<and> (''--proxy'' \<notin> set args \<longrightarrow> env ''PLAYWRIGHT_PROXY'' = None \<longrightarrow>
          GLOBAL_PROXY_CONFIG cfg = JNull)"
proof -
  have h1: "''--headless'' \<in> set args \<longrightarrow> GLOBAL_HEADLESS_MODE cfg = True"
    using assms by (simp add: load_config_fields)
  have h2: "''--headless'' \<notin> set args \<longrightarrow> env ''PLAYWRIGHT_HEADLESS'' = Some v \<longrightarrow>
          GLOBAL_HEADLESS_MODE cfg = (v = ''true'')"
    using assms by (simp add: load_config_fields)
  have h3: "''--headless'' \<notin> set args \<longrightarrow> env ''PLAYWRIGHT_HEADLESS'' = None \<longrightarrow>
          GLOBAL_HEADLESS_MODE cfg = False"
    using assms by (simp add: load_config_fields)
  have p1: "args = pre @ ''--proxy'' # a # post \<longrightarrow> ''--proxy'' \<notin> set pre \<longrightarrow> a \<noteq> [] \<longrightarrow>
          JSON_parse a = Inr c \<longrightarrow> truthy c \<longrightarrow> GLOBAL_PROXY_CONFIG cfg = c"
  proof (intro impI)
    assume a: "args = pre @ ''--proxy'' # a # post" "''--proxy'' \<notin> set pre" "a \<noteq> []"
      "JSON_parse a = Inr c" "truthy c"
    have "cliProxyConfig JSON_parse args = (c, [])"
      using a(3,4) by (simp add: cliProxyConfig_value [OF a(1) a(2)])
    then show "GLOBAL_PROXY_CONFIG cfg = c"
      using assms a(5) by (simp add: load_config_fields)
  qed
  have p2: "''--proxy'' \<notin> set args \<longrightarrow> env ''PLAYWRIGHT_PROXY'' = Some s \<longrightarrow> s \<noteq> [] \<longrightarrow>
          JSON_parse s = Inr e \<longrightarrow> GLOBAL_PROXY_CONFIG cfg = e"
    using assms
    by (simp add: load_config_fields cliProxyConfig_absent envProxyConfig_value)
  have p3: "''--proxy'' \<notin> set args \<longrightarrow> env ''PLAYWRIGHT_PROXY'' = None \<longrightarrow>
          GLOBAL_PROXY_CONFIG cfg = JNull"
    using assms
    by (simp add: load_config_fields cliProxyConfig_absent envProxyConfig_absent)
  from h1 h2 h3 p1 p2 p3 show ?thesis by blast
qed

theorem config_precedence_witness:
  "''--headless'' \<in> set (drop 2 [''node'', ''index.js'', ''--headless'', ''--proxy'',
        ''{\"server\":\"http://cli.example:3128\"}''])
   \<and> GLOBAL_HEADLESS_MODE (fst (load_config example_parse
        [''node'', ''index.js'', ''--headless'', ''--proxy'', ''{\"server\":\"http://cli.example:3128\"}'']
        [''PLAYWRIGHT_HEADLESS'' \<mapsto> ''false'',
         ''PLAYWRIGHT_PROXY'' \<mapsto> ''{\"server\":\"http://proxy.example:8080\",\"username\":\"u\",\"password\":\"p\"}''])) = True
   \<and> GLOBAL_PROXY_CONFIG (fst (load_config example_parse
        [''node'', ''index.js'', ''--headless'', ''--proxy'', ''{\"server\":\"http://cli.example:3128\"}'']
        [''PLAYWRIGHT_HEADLESS'' \<mapsto> ''false'',
         ''PLAYWRIGHT_PROXY'' \<mapsto> ''{\"server\":\"http://proxy.example:8080\",\"username\":\"u\",\"password\":\"p\"}'']))
       = JObj [(''server'', JStr ''http://cli.example:3128'')]
   \<and> ''--headless'' \<notin> set (drop 2 [''node'', ''index.js''])
   \<and> ''--proxy'' \<notin> set (drop 2 [''node'', ''index.js''])
   \<and> GLOBAL_HEADLESS_MODE (fst (load_config example_parse [''node'', ''index.js'']
        [''PLAYWRIGHT_HEADLESS'' \<mapsto> ''true'',
         ''PLAYWRIGHT_PROXY'' \<mapsto> ''{\"server\":\"http://proxy.example:8080\",\"username\":\"u\",\"password\":\"p\"}''])) = True
   \<and> GLOBAL_PROXY_CONFIG (fst (load_config example_parse [''node'', ''index.js'']
        [''PLAYWRIGHT_HEADLESS'' \<mapsto> ''true'',
         ''PLAYWRIGHT_PROXY'' \<mapsto> ''{\"server\":\"http://proxy.example:8080\",\"username\":\"u\",\"password\":\"p\"}'']))
       = JObj [(''server'', JStr ''http://proxy.example:8080''),
               (''username'', JStr ''u''), (''password'', JStr ''p'')]
   \<and> GLOBAL_HEADLESS_MODE (fst (load_config example_parse [''node'', ''index.js''] Map.empty)) = False
   \<and> GLOBAL_PROXY_CONFIG (fst (load_config example_parse [''node'', ''index.js''] Map.empty)) = JNull"
  using
    config_precedence [where JSON_parse = example_parse
      and argv = "[''node'', ''index.js'', ''--headless'', ''--proxy'', ''{\"server\":\"http://cli.example:3128\"}'']"
      and env = "[''PLAYWRIGHT_HEADLESS'' \<mapsto> ''false'',
        ''PLAYWRIGHT_PROXY'' \<mapsto> ''{\"server\":\"http://proxy.example:8080\",\"username\":\"u\",\"password\":\"p\"}'']"
      and v = "''false''" and pre = "[''--headless'']"
      and a = "''{\"server\":\"http://cli.example:3128\"}''" and post = "[]"
      and c = "JObj [(''server'', JStr ''http://cli.example:3128'')]", OF refl refl]
    config_precedence [where JSON_parse = example_parse and argv = "[''node'', ''index.js'']"
      and env = "[''PLAYWRIGHT_HEADLESS'' \<mapsto> ''true'',
        ''PLAYWRIGHT_PROXY'' \<mapsto> ''{\"server\":\"http://proxy.example:8080\",\"username\":\"u\",\"password\":\"p\"}'']"
      and v = "''true''"
      and s = "''{\"server\":\"http://proxy.example:8080\",\"username\":\"u\",\"password\":\"p\"}''"
      and e = "JObj [(''server'', JStr ''http://proxy.example:8080''),
               (''username'', JStr ''u''), (''password'', JStr ''p'')]", OF refl refl]
    config_precedence [where JSON_parse = example_parse and argv = "[''node'', ''index.js'']"
      and env = Map.empty, OF refl refl]
  by (simp add: example_parse_def)

text \<open>
  C5. The claim: for each setting, headless mode and proxy, when the resolved value is
  enabled at most one of the two provenance flags is true, and with both sources present
  the command line is the one reported.

  The proxy flags keep it (\<open>proxy_provenance_exclusive\<close>): \<open>ENV_PROXY_MODE\<close> is
  computed with \<^verbatim>\<open>&& !cliProxyConfig\<close>. The headless flags do not:
  \<open>ENV_HEADLESS_MODE\<close> only compares the environment variable with \<open>true\<close>, so with
  the flag on the command line and the variable set to \<open>true\<close> both provenance flags are
  true. The diagnostic line still names the command line.
\<close>

theorem headless_provenance_both_true:
  "GLOBAL_HEADLESS_MODE (fst (load_config example_parse [''node'', ''index.js'', ''--headless'']
      [''PLAYWRIGHT_HEADLESS'' \<mapsto> ''true'']))
   \<and> CLI_HEADLESS_MODE (fst (load_config example_parse [''node'', ''index.js'', ''--headless'']
      [''PLAYWRIGHT_HEADLESS'' \<mapsto> ''true'']))
   \<and> ENV_HEADLESS_MODE (fst (load_config example_parse [''node'', ''index.js'', ''--headless'']
      [''PLAYWRIGHT_HEADLESS'' \<mapsto> ''true'']))
   \<and> headless_diagnostic (fst (load_config example_parse [''node'', ''index.js'', ''--headless'']
      [''PLAYWRIGHT_HEADLESS'' \<mapsto> ''true''])) =
       Some ''Playwright MCP Server starting in headless mode (--headless flag)''"
  by (simp add: load_config_fields headless_diagnostic_def)

text \<open>
  C6. A proxy value that \<open>JSON_parse\<close> rejects is not fatal: the module still yields
  its constants (\<open>load_config\<close> has no error result), one console entry records the
  error, the source counts as unset and the other source decides. A rejected environment
  value without a \<^verbatim>\<open>--proxy\<close> flag leaves the proxy unset; a rejected command-line
  value falls back to the parsed environment value; a rejected environment value leaves
  the command line's value in place; two rejected values leave the proxy unset, with two
  console entries.
\<close>

theorem malformed_proxy_not_fatal:
  assumes "cfg = fst (load_config JSON_parse argv env)"
    and "console = snd (load_config JSON_parse argv env)"
    and "args = drop 2 argv"
  shows "(''--proxy'' \<notin> set args \<longrightarrow> env ''PLAYWRIGHT_PROXY'' = Some s \<longrightarrow> s \<noteq> [] \<longrightarrow>
          JSON_parse s = Inl err \<longrightarrow>
            GLOBAL_PROXY_CONFIG cfg = JNull \<and> \<not> CLI_PROXY_MODE cfg \<and> \<not> ENV_PROXY_MODE cfg
            \<and> console = [LineWithError ''Failed to parse PLAYWRIGHT_PROXY:'' err])
    \<and> (args = pre @ ''--proxy'' # a # post \<longrightarrow> ''--proxy'' \<notin> set pre \<longrightarrow> a \<noteq> [] \<longrightarrow>
          JSON_parse a = Inl err \<longrightarrow>
          env ''PLAYWRIGHT_PROXY'' = Some s \<longrightarrow> s \<noteq> [] \<longrightarrow> JSON_parse s = Inr e \<longrightarrow>
            GLOBAL_PROXY_CONFIG cfg = e \<and> \<not> CLI_PROXY_MODE cfg \<and> ENV_PROXY_MODE cfg = truthy e
            \<and> console = [LineWithError ''Failed to parse --proxy argument:'' err])
    \<and> (args = pre @ ''--proxy'' # a # post \<longrightarrow> ''--proxy'' \<notin> set pre \<longrightarrow> a \<noteq> [] \<longrightarrow>
          JSON_parse a = Inr c \<longrightarrow> truthy c \<longrightarrow>
          env ''PLAYWRIGHT_PROXY'' = Some s \<longrightarrow> s \<noteq> [] \<longrightarrow> JSON_parse s = Inl err \<longrightarrow>
            GLOBAL_PROXY_CONFIG cfg = c \<and> CLI_PROXY_MODE cfg \<and> \<not> ENV_PROXY_MODE cfg
            \<and> console = [LineWithError ''Failed to parse PLAYWRIGHT_PROXY:'' err])
    \<and> (args = pre @ ''--proxy'' # a # post \<longrightarrow> ''--proxy'' \<notin> set pre \<longrightarrow> a \<noteq> [] \<longrightarrow>
          JSON_parse a = Inl err \<longrightarrow>
          env ''PLAYWRIGHT_PROXY'' = Some s \<longrightarrow> s \<noteq> [] \<longrightarrow> JSON_parse s = Inl err' \<longrightarrow>
            GLOBAL_PROXY_CONFIG cfg = JNull \<and> \<not> CLI_PROXY_MODE cfg \<and> \<not> ENV_PROXY_MODE cfg
            \<and> console = [LineWithError ''Failed to parse --proxy argument:'' err,
                          LineWithError ''Failed to parse PLAYWRIGHT_PROXY:'' err'])"
proof -
  note cfg = assms(1) and console = assms(2)
  have cli: "args = pre @ ''--proxy'' # a # post \<Longrightarrow> ''--proxy'' \<notin> set pre \<Longrightarrow> a \<noteq> [] \<Longrightarrow>
      cliProxyConfig JSON_parse (drop 2 argv) =
        (case JSON_parse a of Inr v \<Rightarrow> (v, [])
         | Inl error \<Rightarrow> (JNull, [LineWithError ''Failed to parse --proxy argument:'' error]))"
    using cliProxyConfig_value [of args pre a post JSON_parse] assms(3) by simp
  have env_only: "''--proxy'' \<notin> set args \<longrightarrow> env ''PLAYWRIGHT_PROXY'' = Some s \<longrightarrow> s \<noteq> [] \<longrightarrow>
          JSON_parse s = Inl err \<longrightarrow>
            GLOBAL_PROXY_CONFIG cfg = JNull \<and> \<not> CLI_PROXY_MODE cfg \<and> \<not> ENV_PROXY_MODE cfg
            \<and> console = [LineWithError ''Failed to parse PLAYWRIGHT_PROXY:'' err]"
    using assms(3)
    by (simp add: cfg console load_config_fields cliProxyConfig_absent envProxyConfig_value)
  have cli_bad: "args = pre @ ''--proxy'' # a # post \<longrightarrow> ''--proxy'' \<notin> set pre \<longrightarrow> a \<noteq> [] \<longrightarrow>
          JSON_parse a = Inl err \<longrightarrow>
          env ''PLAYWRIGHT_PROXY'' = Some s \<longrightarrow> s \<noteq> [] \<longrightarrow> JSON_parse s = Inr e \<longrightarrow>
            GLOBAL_PROXY_CONFIG cfg = e \<and> \<not> CLI_PROXY_MODE cfg \<and> ENV_PROXY_MODE cfg = truthy e
            \<and> console = [LineWithError ''Failed to parse --proxy argument:'' err]"
    using cli by (simp add: cfg console load_config_fields envProxyConfig_value)
  have env_bad: "args = pre @ ''--proxy'' # a # post \<longrightarrow> ''--proxy'' \<notin> set pre \<longrightarrow> a \<noteq> [] \<longrightarrow>
          JSON_parse a = Inr c \<longrightarrow> truthy c \<longrightarrow>
          env ''PLAYWRIGHT_PROXY'' = Some s \<longrightarrow> s \<noteq> [] \<longrightarrow> JSON_parse s = Inl err \<longrightarrow>
            GLOBAL_PROXY_CONFIG cfg = c \<and> CLI_PROXY_MODE cfg \<and> \<not> ENV_PROXY_MODE cfg
            \<and> console = [LineWithError ''Failed to parse PLAYWRIGHT_PROXY:'' err]"
    using cli by (simp add: cfg console load_config_fields envProxyConfig_value)
  have both_bad: "args = pre @ ''--proxy'' # a # post \<longrightarrow> ''--proxy'' \<notin> set pre \<longrightarrow> a \<noteq> [] \<longrightarrow>
          JSON_parse a = Inl err \<longrightarrow>
          env ''PLAYWRIGHT_PROXY'' = Some s \<longrightarrow> s \<noteq> [] \<longrightarrow> JSON_parse s = Inl err' \<longrightarrow>
            GLOBAL_PROXY_CONFIG cfg = JNull \<and> \<not> CLI_PROXY_MODE cfg \<and> \<not> ENV_PROXY_MODE cfg
            \<and> console = [LineWithError ''Failed to parse --proxy argument:'' err,
                          LineWithError ''Failed to parse PLAYWRIGHT_PROXY:'' err']"
    using cli by (simp add: cfg console load_config_fields envProxyConfig_value)
  from env_only cli_bad env_bad both_bad show ?thesis by blast
qed

theorem malformed_proxy_not_fatal_witness:
  "''--proxy'' \<notin> set (drop 2 [''node'', ''index.js''])
   \<and> example_parse ''{server:'' = Inl (SyntaxError ''Unexpected token'')
   \<and> GLOBAL_PROXY_CONFIG (fst (load_config example_parse [''node'', ''index.js'']
         [''PLAYWRIGHT_PROXY'' \<mapsto> ''{server:''])) = JNull
   \<and> snd (load_config example_parse [''node'', ''index.js''] [''PLAYWRIGHT_PROXY'' \<mapsto> ''{server:''])
       = [LineWithError ''Failed to parse PLAYWRIGHT_PROXY:'' (SyntaxError ''Unexpected token'')]
   \<and> GLOBAL_PROXY_CONFIG (fst (load_config example_parse
         [''node'', ''index.js'', ''--proxy'', ''{server:'']
         [''PLAYWRIGHT_PROXY'' \<mapsto> ''{\"server\":\"http://proxy.example:8080\",\"username\":\"u\",\"password\":\"p\"}'']))
       = JObj [(''server'', JStr ''http://proxy.example:8080''),
               (''username'', JStr ''u''), (''password'', JStr ''p'')]
   \<and> snd (load_config example_parse [''node'', ''index.js'', ''--proxy'', ''{server:'']
         [''PLAYWRIGHT_PROXY'' \<mapsto> ''{\"server\":\"http://proxy.example:8080\",\"username\":\"u\",\"password\":\"p\"}''])
       = [LineWithError ''Failed to parse --proxy argument:'' (SyntaxError ''Unexpected token'')]"
  using
    malformed_proxy_not_fatal [where JSON_parse = example_parse and argv = "[''node'', ''index.js'']"
      and env = "[''PLAYWRIGHT_PROXY'' \<mapsto> ''{server:'']" and s = "''{server:''"
      and err = "SyntaxError ''Unexpected token''", OF refl refl refl]
    malformed_proxy_not_fatal [where JSON_parse = example_parse
      and argv = "[''node'', ''index.js'', ''--proxy'', ''{server:'']"
      and env = "[''PLAYWRIGHT_PROXY'' \<mapsto> ''{\"server\":\"http://proxy.example:8080\",\"username\":\"u\",\"password\":\"p\"}'']"
      and pre = "[]" and a = "''{server:''" and post = "[]"
      and err = "SyntaxError ''Unexpected token''"
      and s = "''{\"server\":\"http://proxy.example:8080\",\"username\":\"u\",\"password\":\"p\"}''"
      and e = "JObj [(''server'', JStr ''http://proxy.example:8080''),
               (''username'', JStr ''u''), (''password'', JStr ''p'')]", OF refl refl refl]
  by (simp add: example_parse_def)

section \<open>Properties of the startup diagnostics\<close>

text \<open>
  C9. For a resolved proxy object with a server, a username (not empty) and a
  password, the diagnostic line is the fixed text, the server address, the marker
  \<^verbatim>\<open>(authenticated)\<close>, the bypass text if any, and the source. Neither credential
  enters it: a second configuration with the same server, bypass and source but another
  username and another password, in fields of any order, gives the same line. (That the
  line does not depend on the credentials is the property; a password can always happen
  to be a part of the server address or of the fixed text.)
\<close>

theorem proxy_diagnostic_hides_credentials:
  assumes "GLOBAL_PROXY_CONFIG cfg = JObj fs"
    and "map_of fs ''server'' = Some (JStr server)"
    and "map_of fs ''bypass'' = map_option JStr bypass"
    and "map_of fs ''username'' = Some (JStr username)" and "username \<noteq> []"
    and "map_of fs ''password'' = Some (JStr password)"
    and "GLOBAL_PROXY_CONFIG cfg' = JObj fs'"
    and "map_of fs' ''server'' = Some (JStr server)"
    and "map_of fs' ''bypass'' = map_option JStr bypass"
    and "map_of fs' ''username'' = Some (JStr username')" and "username' \<noteq> []"
    and "map_of fs' ''password'' = Some (JStr password')"
    and "CLI_PROXY_MODE cfg' = CLI_PROXY_MODE cfg"
  shows "proxy_diagnostic num cfg =
           Some (Inr (''Playwright MCP Server starting with proxy: '' @ server
             @ '' (authenticated)''
             @ (case bypass of None \<Rightarrow> []
                | Some b \<Rightarrow> if b = [] then [] else '' (bypass: '' @ b @ '')'')
             @ '' ('' @ (if CLI_PROXY_MODE cfg then ''--proxy flag''
                         else ''PLAYWRIGHT_PROXY environment variable'') @ '')''))
         \<and> proxy_diagnostic num cfg' = proxy_diagnostic num cfg"
proof -
  have line: "proxy_diagnostic num c =
           Some (Inr (''Playwright MCP Server starting with proxy: '' @ server
             @ '' (authenticated)''
             @ (case bypass of None \<Rightarrow> []
                | Some b \<Rightarrow> if b = [] then [] else '' (bypass: '' @ b @ '')'')
             @ '' ('' @ (if CLI_PROXY_MODE c then ''--proxy flag''
                         else ''PLAYWRIGHT_PROXY environment variable'') @ '')''))"
    if "GLOBAL_PROXY_CONFIG c = JObj gs" "map_of gs ''server'' = Some (JStr server)"
      "map_of gs ''bypass'' = map_option JStr bypass"
      "map_of gs ''username'' = Some (JStr u)" "u \<noteq> []"
    for c gs u
    using that
    by (cases bypass)
      (simp_all add: proxy_diagnostic_def Let_def truthy_prop_def template_value_def)
  show ?thesis
    using line [OF assms(1,2,3,4,5)] line [OF assms(7,8,9,10,11)] assms(13) by simp
qed

theorem proxy_diagnostic_hides_credentials_witness:
  "\<forall>num.
     proxy_diagnostic num (fst (load_config example_parse [''node'', ''index.js'']
        [''PLAYWRIGHT_PROXY'' \<mapsto> ''{\"server\":\"http://proxy.example:8080\",\"username\":\"u\",\"password\":\"p\"}'']))
      = Some (Inr ''Playwright MCP Server starting with proxy: http://proxy.example:8080 (authenticated) (PLAYWRIGHT_PROXY environment variable)'')
   \<and> proxy_diagnostic num
        \<lparr> GLOBAL_HEADLESS_MODE = False, CLI_HEADLESS_MODE = False, ENV_HEADLESS_MODE = False,
          GLOBAL_PROXY_CONFIG = JObj [(''password'', JStr ''s3cret''), (''username'', JStr ''alice''),
                                      (''server'', JStr ''http://proxy.example:8080'')],
          CLI_PROXY_MODE = False, ENV_PROXY_MODE = True \<rparr>
      = Some (Inr ''Playwright MCP Server starting with proxy: http://proxy.example:8080 (authenticated) (PLAYWRIGHT_PROXY environment variable)'')"
proof
  fix num
  have cfg: "fst (load_config example_parse [''node'', ''index.js'']
        [''PLAYWRIGHT_PROXY'' \<mapsto> ''{\"server\":\"http://proxy.example:8080\",\"username\":\"u\",\"password\":\"p\"}''])
      = \<lparr> GLOBAL_HEADLESS_MODE = False, CLI_HEADLESS_MODE = False, ENV_HEADLESS_MODE = False,
          GLOBAL_PROXY_CONFIG = JObj [(''server'', JStr ''http://proxy.example:8080''),
               (''username'', JStr ''u''), (''password'', JStr ''p'')],
          CLI_PROXY_MODE = False, ENV_PROXY_MODE = True \<rparr>"
    by (simp add: load_config_def cliProxyConfig_def envProxyConfig_def example_parse_def)
  show "proxy_diagnostic num (fst (load_config example_parse [''node'', ''index.js'']
        [''PLAYWRIGHT_PROXY'' \<mapsto> ''{\"server\":\"http://proxy.example:8080\",\"username\":\"u\",\"password\":\"p\"}'']))
      = Some (Inr ''Playwright MCP Server starting with proxy: http://proxy.example:8080 (authenticated) (PLAYWRIGHT_PROXY environment variable)'')
   \<and> proxy_diagnostic num
        \<lparr> GLOBAL_HEADLESS_MODE = False, CLI_HEADLESS_MODE = False, ENV_HEADLESS_MODE = False,
          GLOBAL_PROXY_CONFIG = JObj [(''password'', JStr ''s3cret''), (''username'', JStr ''alice''),
                                      (''server'', JStr ''http://proxy.example:8080'')],
          CLI_PROXY_MODE = False, ENV_PROXY_MODE = True \<rparr>
      = Some (Inr ''Playwright MCP Server starting with proxy: http://proxy.example:8080 (authenticated) (PLAYWRIGHT_PROXY environment variable)'')"
    using proxy_diagnostic_hides_credentials [where num = num
        and cfg = "fst (load_config example_parse [''node'', ''index.js'']
          [''PLAYWRIGHT_PROXY'' \<mapsto> ''{\"server\":\"http://proxy.example:8080\",\"username\":\"u\",\"password\":\"p\"}''])"
        and fs = "[(''server'', JStr ''http://proxy.example:8080''),
               (''username'', JStr ''u''), (''password'', JStr ''p'')]"
        and server = "''http://proxy.example:8080''" and bypass = None
        and username = "''u''" and password = "''p''"
        and cfg' = "\<lparr> GLOBAL_HEADLESS_MODE = False, CLI_HEADLESS_MODE = False, ENV_HEADLESS_MODE = False,
          GLOBAL_PROXY_CONFIG = JObj [(''password'', JStr ''s3cret''), (''username'', JStr ''alice''),
                                      (''server'', JStr ''http://proxy.example:8080'')],
          CLI_PROXY_MODE = False, ENV_PROXY_MODE = True \<rparr>"
        and fs' = "[(''password'', JStr ''s3cret''), (''username'', JStr ''alice''),
                                      (''server'', JStr ''http://proxy.example:8080'')]"
        and username' = "''alice''" and password' = "''s3cret''"]
    by (simp add: cfg)
qed

end
